theory Spec2Isabelle
  imports Complex_Main
begin

section \<open>Teacher availability and time accounting (backend/server.js)\<close>

text \<open>
  A shallow embedding of the availability subsystem of the Express server: the Teacher and
  TimeRecord collections, the handler of \<^verbatim>\<open>PUT /api/teachers/status\<close>, the handler of
  \<^verbatim>\<open>GET /api/teachers/my-time\<close>, the roster query, registration and the socket.io
  connection handler.

  Conventions of the model:
  \<^item> a JavaScript \<^verbatim>\<open>Date\<close> is its time value, an integer number of milliseconds;
  \<^item> a JavaScript \<^verbatim>\<open>Number\<close> holding seconds is an exact rational (the rounding of
    doubles is not modelled);
  \<^item> every \<^verbatim>\<open>new Date()\<close> of a handler is a separate reading of the clock, passed in;
  \<^item> every \<^verbatim>\<open>await\<close> on the store may throw; which ones do is passed in as \<open>faults\<close>,
    and a store operation that throws leaves the store as it was;
  \<^item> \<^verbatim>\<open>startOfDay\<close> of date-fns is a parameter of the handlers that use it;
  \<^item> the request body's \<^verbatim>\<open>isAvailable\<close> is any JSON value, or missing; the handler
    tests it by JavaScript truthiness, and Mongoose casts it when it is assigned to the
    Boolean path of the document;
  \<^item> the stored \<open>isAvailable\<close> of a teacher is what a read of the field tests as: a
    stored null or a missing field is \<open>False\<close>.
\<close>

subsection \<open>Data model\<close>

type_synonym objectId = nat
type_synonym instant = int
type_synonym socketId = nat

text \<open>teacherSchema. \<open>password\<close> is \<open>None\<close> in a document projected with
  \<^verbatim>\<open>select('-password')\<close>; \<open>lastAvailableTimestamp\<close> is \<open>None\<close> when the field is
  missing or null.\<close>

record Teacher =
  oid :: objectId
  name :: string
  email :: string
  password :: "string option"
  phone :: string
  roomno :: string
  isAvailable :: bool
  lastAvailableTimestamp :: "instant option"

text \<open>timeRecordSchema; \<open>totalAvailableTime\<close> is in seconds.\<close>

record TimeRecord =
  teacher :: objectId
  date :: instant
  totalAvailableTime :: rat

record db =
  teachers :: "Teacher list"
  timeRecords :: "TimeRecord list"

datatype error = BadRequest | NotFound | ServerError

datatype event = statusUpdate "Teacher list"

text \<open>A value of the request body: \<open>JUndefined\<close> for a missing field, \<open>JObject\<close> for
  any object or array.\<close>

datatype js_value = JUndefined | JNull | JBool bool | JNum rat | JStr string | JObject

text \<open>What \<^verbatim>\<open>v ? a : b\<close> and \<^verbatim>\<open>!v\<close> test.\<close>

fun truthy :: "js_value \<Rightarrow> bool" where
  "truthy JUndefined = False"
| "truthy JNull = False"
| "truthy (JBool b) = b"
| "truthy (JNum n) = (n \<noteq> 0)"
| "truthy (JStr str) = (str \<noteq> [])"
| "truthy JObject = True"

text \<open>Mongoose's cast of a value assigned to a path of type Boolean: the values it
  converts to true, the values it converts to false, null and undefined kept (stored as
  null or unset, which reads as false), and anything else a cast error, here \<open>None\<close>.
  A document with a cast error is rejected by \<^verbatim>\<open>save()\<close>.\<close>

definition castBoolean :: "js_value \<Rightarrow> bool option" where
  "castBoolean v =
     (if v \<in> set [JBool True, JStr ''true'', JNum 1, JStr ''1'', JStr ''yes''] then Some True
      else if v \<in> set [JBool False, JStr ''false'', JNum 0, JStr ''0'', JStr ''no'']
      then Some False
      else if v = JNull \<or> v = JUndefined then Some False
      else None)"

text \<open>Which store operations of one request throw.\<close>

record faults =
  findById_fails :: bool
  findOne_fails :: bool
  findOneAndUpdate_fails :: bool
  save_fails :: bool
  find_fails :: bool

definition no_faults :: faults where
  "no_faults = \<lparr>findById_fails = False, findOne_fails = False,
     findOneAndUpdate_fails = False, save_fails = False, find_fails = False\<rparr>"

text \<open>The three clock readings of the status handler: \<open>now_duration\<close> for the session
  duration, \<open>now_today\<close> for the day key, \<open>now_stamp\<close> for the new timestamp.\<close>

record clock =
  now_duration :: instant
  now_today :: instant
  now_stamp :: instant

definition at_instant :: "instant \<Rightarrow> clock" where
  "at_instant now = \<lparr>now_duration = now, now_today = now, now_stamp = now\<rparr>"

text \<open>An instance of \<^verbatim>\<open>startOfDay\<close>: midnight of a process whose time zone is UTC.\<close>

definition startOfDay_utc :: "instant \<Rightarrow> instant" where
  "startOfDay_utc t = t - t mod 86400000"

subsection \<open>Store operations\<close>

definition findById :: "Teacher list \<Rightarrow> objectId \<Rightarrow> Teacher option" where
  "findById ts i = List.find (\<lambda>t. oid t = i) ts"

text \<open>\<^verbatim>\<open>teacher.save()\<close> of a document that was read from the collection: the stored
  document with that id is replaced. The handler saves only the document it has just
  read, so the collection holds one with that id.\<close>

fun save :: "Teacher \<Rightarrow> Teacher list \<Rightarrow> Teacher list" where
  "save t [] = []"
| "save t (x # xs) = (if oid x = oid t then t # xs else x # save t xs)"

text \<open>\<^verbatim>\<open>Teacher.find().select('-password')\<close>.\<close>

definition select_minus_password :: "Teacher list \<Rightarrow> Teacher list" where
  "select_minus_password ts = map (\<lambda>t. t\<lparr>password := None\<rparr>) ts"

definition findOne :: "TimeRecord list \<Rightarrow> objectId \<Rightarrow> instant \<Rightarrow> TimeRecord option" where
  "findOne rs tid d = List.find (\<lambda>r. teacher r = tid \<and> date r = d) rs"

text \<open>\<^verbatim>\<open>TimeRecord.findOneAndUpdate({teacher, date}, {$inc: {totalAvailableTime}},
  {upsert: true})\<close>: the first matching record is incremented; when none matches, a
  record with the key and the increment applied to zero is inserted.\<close>

fun findOneAndUpdate_inc ::
  "TimeRecord list \<Rightarrow> objectId \<Rightarrow> instant \<Rightarrow> rat \<Rightarrow> TimeRecord list" where
  "findOneAndUpdate_inc [] tid d delta =
     [\<lparr>teacher = tid, date = d, totalAvailableTime = 0 + delta\<rparr>]"
| "findOneAndUpdate_inc (r # rs) tid d delta =
     (if teacher r = tid \<and> date r = d
      then r\<lparr>totalAvailableTime := totalAvailableTime r + delta\<rparr> # rs
      else r # findOneAndUpdate_inc rs tid d delta)"

text \<open>\<^verbatim>\<open>record ? record.totalAvailableTime : 0\<close>.\<close>

definition committed :: "TimeRecord list \<Rightarrow> objectId \<Rightarrow> instant \<Rightarrow> rat" where
  "committed rs tid d =
     (case findOne rs tid d of Some r \<Rightarrow> totalAvailableTime r | None \<Rightarrow> 0)"

subsection \<open>socket.io\<close>

text \<open>\<^verbatim>\<open>io.emit\<close> delivers the event to every connected socket.\<close>

definition io_emit :: "socketId list \<Rightarrow> event \<Rightarrow> (socketId \<times> event) list" where
  "io_emit conns ev = map (\<lambda>sid. (sid, ev)) conns"

record hub =
  sockets :: "socketId list"
  rooms :: "(socketId \<times> objectId) list"


definition joinRoom :: "hub \<Rightarrow> socketId \<Rightarrow> objectId \<Rightarrow> hub" where
  "joinRoom h sid teacherId = h\<lparr>rooms := rooms h @ [(sid, teacherId)]\<rparr>"

subsection \<open>PUT /api/teachers/status\<close>

record outcome =
  store :: db
  response :: "error + Teacher"
  emitted :: "(socketId \<times> event) list"

definition sessionDuration :: "instant \<Rightarrow> instant \<Rightarrow> rat" where
  "sessionDuration now ts = of_int (now - ts) / 1000"

text \<open>The block under the comment "Time Tracking Logic".\<close>

definition timeTracking ::
  "(instant \<Rightarrow> instant) \<Rightarrow> faults \<Rightarrow> clock \<Rightarrow> db \<Rightarrow> objectId \<Rightarrow> Teacher \<Rightarrow> js_value
   \<Rightarrow> error + db" where
  "timeTracking startOfDay f c s teacherId t isAvailable' =
     (if isAvailable t \<and> \<not> truthy isAvailable' then
        (case lastAvailableTimestamp t of
           Some ts \<Rightarrow>
             (let sd = sessionDuration (now_duration c) ts;
                  today = startOfDay (now_today c)
              in if findOneAndUpdate_fails f then Inl ServerError
                 else Inr (s\<lparr>timeRecords :=
                        findOneAndUpdate_inc (timeRecords s) teacherId today sd\<rparr>))
         | None \<Rightarrow> Inr s)
      else Inr s)"

text \<open>The handler. The assignment to \<^verbatim>\<open>teacher.isAvailable\<close> stores the cast of the
  body's value, the assignment to \<^verbatim>\<open>teacher.lastAvailableTimestamp\<close> tests the value
  itself; a cast error surfaces when \<^verbatim>\<open>save()\<close> validates the document.\<close>

definition put_status ::
  "(instant \<Rightarrow> instant) \<Rightarrow> faults \<Rightarrow> clock \<Rightarrow> socketId list \<Rightarrow> db \<Rightarrow> objectId
   \<Rightarrow> js_value \<Rightarrow> outcome" where
  "put_status startOfDay f c conns s teacherId isAvailable' =
     (if findById_fails f then \<lparr>store = s, response = Inl ServerError, emitted = []\<rparr>
      else
        (case findById (teachers s) teacherId of
           None \<Rightarrow> \<lparr>store = s, response = Inl NotFound, emitted = []\<rparr>
         | Some t \<Rightarrow>
             (case timeTracking startOfDay f c s teacherId t isAvailable' of
                Inl e \<Rightarrow> \<lparr>store = s, response = Inl e, emitted = []\<rparr>
              | Inr s1 \<Rightarrow>
                  (case castBoolean isAvailable' of
                     None \<Rightarrow> \<lparr>store = s1, response = Inl ServerError, emitted = []\<rparr>
                   | Some b \<Rightarrow>
                       (let t' = t\<lparr>isAvailable := b,
                                   lastAvailableTimestamp :=
                                     (if truthy isAvailable' then Some (now_stamp c)
                                      else None)\<rparr>
                        in if save_fails f
                           then \<lparr>store = s1, response = Inl ServerError, emitted = []\<rparr>
                           else
                             (let s2 = s1\<lparr>teachers := save t' (teachers s1)\<rparr>
                              in if find_fails f
                                 then \<lparr>store = s2, response = Inl ServerError,
                                        emitted = []\<rparr>
                                 else \<lparr>store = s2, response = Inr t',
                                        emitted = io_emit conns
                                          (statusUpdate
                                            (select_minus_password (teachers s2)))\<rparr>))))))"

subsection \<open>GET /api/teachers/my-time and GET /api/teachers\<close>

definition get_my_time ::
  "(instant \<Rightarrow> instant) \<Rightarrow> faults \<Rightarrow> instant \<Rightarrow> db \<Rightarrow> objectId \<Rightarrow> error + rat" where
  "get_my_time startOfDay f now s teacherId =
     (let today = startOfDay now
      in if findOne_fails f then Inl ServerError
         else Inr (committed (timeRecords s) teacherId today))"


subsection \<open>POST /api/auth/register\<close>

text \<open>\<open>hash\<close> is bcrypt's salted hash and \<open>newId\<close> the id the driver generates for the
  new document; a missing field of the body is the empty string. The schema gives
  \<open>isAvailable\<close> its default \<open>False\<close> and leaves \<open>lastAvailableTimestamp\<close> unset.\<close>

definition register ::
  "(string \<Rightarrow> string) \<Rightarrow> objectId \<Rightarrow> faults \<Rightarrow> db
   \<Rightarrow> string \<Rightarrow> string \<Rightarrow> string \<Rightarrow> string \<Rightarrow> string \<Rightarrow> db \<times> (error + unit)" where
  "register hash newId f s name' email' password' phone' roomno' =
     (if name' = [] \<or> email' = [] \<or> password' = [] \<or> phone' = [] \<or> roomno' = []
      then (s, Inl BadRequest)
      else if findOne_fails f then (s, Inl ServerError)
      else
        (case List.find (\<lambda>t. email t = email') (teachers s) of
           Some existingTeacher \<Rightarrow> (s, Inl BadRequest)
         | None \<Rightarrow>
             (let newTeacher = \<lparr>oid = newId, name = name', email = email',
                     password = Some (hash password'), phone = phone', roomno = roomno',
                     isAvailable = False, lastAvailableTimestamp = None\<rparr>
              in if save_fails f then (s, Inl ServerError)
                 else (s\<lparr>teachers := teachers s @ [newTeacher]\<rparr>, Inr ()))))"

subsection \<open>Sequences of status requests\<close>

record request =
  rq_faults :: faults
  rq_clock :: clock
  rq_conns :: "socketId list"
  rq_teacherId :: objectId
  rq_isAvailable :: js_value

definition serve :: "(instant \<Rightarrow> instant) \<Rightarrow> db \<Rightarrow> request \<Rightarrow> outcome" where
  "serve startOfDay s r =
     put_status startOfDay (rq_faults r) (rq_clock r) (rq_conns r) s
       (rq_teacherId r) (rq_isAvailable r)"

text \<open>The store after the requests are handled one after the other.\<close>

fun run :: "(instant \<Rightarrow> instant) \<Rightarrow> db \<Rightarrow> request list \<Rightarrow> db" where
  "run startOfDay s [] = s"
| "run startOfDay s (r # rs) = run startOfDay (store (serve startOfDay s r)) rs"

subsection \<open>Invariants and predicates of the specification\<close>

text \<open>The Teacher invariant: the timestamp is present exactly when the teacher is
  available.\<close>

definition invariant_Teacher :: "Teacher \<Rightarrow> bool" where
  "invariant_Teacher t = ((lastAvailableTimestamp t \<noteq> None) = isAvailable t)"

definition invariant_teachers :: "db \<Rightarrow> bool" where
  "invariant_teachers s = list_all invariant_Teacher (teachers s)"

definition record_key :: "TimeRecord \<Rightarrow> objectId \<times> instant" where
  "record_key r = (teacher r, date r)"

text \<open>The ledger invariant: no total is negative, and no two records have the same
  teacher and day.\<close>

definition invariant_timeRecords :: "TimeRecord list \<Rightarrow> bool" where
  "invariant_timeRecords rs =
     (list_all (\<lambda>r. 0 \<le> totalAvailableTime r) rs \<and> distinct (map record_key rs))"

text \<open>No stored session start lies after the instant \<open>n\<close>.\<close>

definition stamps_le :: "instant \<Rightarrow> db \<Rightarrow> bool" where
  "stamps_le n s =
     list_all (\<lambda>t. case lastAvailableTimestamp t of None \<Rightarrow> True | Some ts \<Rightarrow> ts \<le> n)
       (teachers s)"

text \<open>The clock never runs backwards over the requests: each request reads the clock
  no earlier than \<open>lo\<close>, and stamps no earlier than it measured.\<close>

fun chronological :: "instant \<Rightarrow> request list \<Rightarrow> bool" where
  "chronological lo [] = True"
| "chronological lo (r # rs) =
     (lo \<le> now_duration (rq_clock r) \<and> now_duration (rq_clock r) \<le> now_stamp (rq_clock r)
      \<and> chronological (now_stamp (rq_clock r)) rs)"

subsection \<open>Concrete stores\<close>

definition T0 :: Teacher where
  "T0 = \<lparr>oid = 1, name = ''T'', email = ''t@school.example'',
     password = Some ''$2a$10$hash'', phone = ''100'', roomno = ''12'',
     isAvailable = False, lastAvailableTimestamp = None\<rparr>"

definition T_since :: "instant \<Rightarrow> Teacher" where
  "T_since ts = T0\<lparr>isAvailable := True, lastAvailableTimestamp := Some ts\<rparr>"

text \<open>A document whose \<open>isAvailable\<close> is set and whose timestamp is missing.\<close>

definition T_legacy :: Teacher where
  "T_legacy = T0\<lparr>isAvailable := True\<rparr>"

definition roster_only :: "Teacher list \<Rightarrow> db" where
  "roster_only ts = \<lparr>teachers = ts, timeRecords = []\<rparr>"

text \<open>Time records of another teacher and of another day.\<close>

definition other_records :: "TimeRecord list" where
  "other_records = [\<lparr>teacher = 2, date = 0, totalAvailableTime = 50\<rparr>,
     \<lparr>teacher = 1, date = - 86400000, totalAvailableTime = 70\<rparr>]"

text \<open>A request of teacher 1 with a boolean body at one instant, with no fault and
  nobody connected.\<close>

definition toggle_at :: "instant \<Rightarrow> bool \<Rightarrow> request" where
  "toggle_at now b = \<lparr>rq_faults = no_faults, rq_clock = at_instant now, rq_conns = [],
     rq_teacherId = 1, rq_isAvailable = JBool b\<rparr>"

lemmas fixture_defs = T0_def T_since_def T_legacy_def roster_only_def no_faults_def
  at_instant_def startOfDay_utc_def findById_def findOne_def committed_def
  sessionDuration_def castBoolean_def other_records_def

section \<open>Properties\<close>

subsection \<open>The store operations\<close>

lemma findById_Some: "findById ts i = Some t \<Longrightarrow> oid t = i \<and> t \<in> set ts"
  unfolding findById_def by (induction ts) (auto split: if_splits)

lemma findById_save:
  "findById ts i = Some t \<Longrightarrow> oid t' = i \<Longrightarrow> findById (save t' ts) i = Some t'"
  unfolding findById_def by (induction ts) (auto split: if_splits)

lemma committed_inc:
  "committed (findOneAndUpdate_inc rs tid d delta) tid' d' =
     committed rs tid' d' + (if tid' = tid \<and> d' = d then delta else 0)"
  unfolding committed_def findOne_def by (induction rs) auto

lemma findOne_inc_same:
  "findOne (findOneAndUpdate_inc rs tid d delta) tid d =
     Some (case findOne rs tid d of
             None \<Rightarrow> \<lparr>teacher = tid, date = d, totalAvailableTime = 0 + delta\<rparr>
           | Some r \<Rightarrow> r\<lparr>totalAvailableTime := totalAvailableTime r + delta\<rparr>)"
  unfolding findOne_def by (induction rs) auto

lemma findOne_first_match:
  "list_all (\<lambda>x. \<not> (teacher x = tid \<and> date x = d)) pre \<Longrightarrow> teacher r = tid \<Longrightarrow> date r = d
   \<Longrightarrow> findOne (pre @ r # post) tid d = Some r"
  by (induction pre) (auto simp: findOne_def)

lemma findOne_no_match:
  "list_all (\<lambda>x. \<not> (teacher x = tid \<and> date x = d)) rs \<Longrightarrow> findOne rs tid d = None"
  by (induction rs) (auto simp: findOne_def)

lemma list_all_save: "list_all P ts \<Longrightarrow> P t' \<Longrightarrow> list_all P (save t' ts)"
  by (induction ts) auto

lemma save_same: "findById ts (oid t) = Some t \<Longrightarrow> save t ts = ts"
  unfolding findById_def by (induction ts) (auto split: if_splits)

subsection \<open>The status handler\<close>

lemma castBoolean_JBool: "castBoolean (JBool b) = Some b"
  by (cases b) (simp_all add: castBoolean_def)

lemma castBoolean_falsy: "\<not> truthy v \<Longrightarrow> castBoolean v = Some b \<Longrightarrow> \<not> b"
  by (cases v) (auto simp: castBoolean_def split: if_splits)

lemma timeTracking_teachers:
  "timeTracking sod f c s tid t v = Inr s1 \<Longrightarrow> teachers s1 = teachers s"
  by (auto simp: timeTracking_def Let_def split: if_splits option.splits)

text \<open>What a successful request leaves behind.\<close>

lemma put_status_success:
  assumes "response (put_status sod f c conns s teacherId v) = Inr t'"
  shows "findById (teachers (store (put_status sod f c conns s teacherId v))) teacherId = Some t'
    \<and> oid t' = teacherId \<and> castBoolean v = Some (isAvailable t')
    \<and> lastAvailableTimestamp t' = (if truthy v then Some (now_stamp c) else None)
    \<and> emitted (put_status sod f c conns s teacherId v)
        = io_emit conns (statusUpdate (select_minus_password
            (teachers (store (put_status sod f c conns s teacherId v)))))"
  using assms unfolding put_status_def
  by (auto simp: Let_def findById_save findById_Some
        split: option.splits sum.splits if_splits dest: timeTracking_teachers)

lemma timeTracking_same_status:
  "isAvailable t = truthy v \<Longrightarrow> timeTracking sod f c s tid t v = Inr s"
  by (simp add: timeTracking_def)

lemma put_status_same_status_ledger:
  assumes "findById (teachers s) teacherId = Some t" and "isAvailable t = truthy v"
  shows "timeRecords (store (put_status sod f c conns s teacherId v)) = timeRecords s"
  using assms
  by (auto simp: put_status_def Let_def timeTracking_same_status split: option.splits)

lemma put_status_false_again:
  assumes "findById (teachers s) teacherId = Some t" and "\<not> isAvailable t"
    and "lastAvailableTimestamp t = None"
  shows "store (put_status sod f c conns s teacherId (JBool False)) = s"
proof -
  have same: "t\<lparr>isAvailable := False, lastAvailableTimestamp := None\<rparr> = t"
    using assms(2,3) by simp
  have kept: "save t (teachers s) = teachers s"
    using assms(1) findById_Some [OF assms(1)] by (simp add: save_same)
  have "timeTracking sod f c s teacherId t (JBool False) = Inr s"
    using assms(2) by (simp add: timeTracking_def)
  then show ?thesis
    using assms(1) by (simp add: put_status_def Let_def castBoolean_JBool same kept)
qed

lemma put_status_truthy_ledger:
  "truthy v \<Longrightarrow> timeRecords (store (put_status sod f c conns s teacherId v)) = timeRecords s"
  unfolding put_status_def
  by (auto simp: Let_def timeTracking_def split: option.splits)

lemma emitted_needs_success:
  assumes "m \<in> set (emitted (put_status sod f c conns s teacherId v))"
  shows "\<exists>t'. response (put_status sod f c conns s teacherId v) = Inr t'"
  using assms unfolding put_status_def
  by (auto simp: Let_def split: option.splits sum.splits if_splits)

lemma save_fails_no_emit:
  "save_fails f \<Longrightarrow> emitted (put_status sod f c conns s teacherId v) = []"
  unfolding put_status_def
  by (auto simp: Let_def split: option.splits sum.splits)

text \<open>A request that changes the time records and whose save goes through leaves the
  teacher unavailable.\<close>

lemma ledger_change_closes_session:
  assumes "timeRecords (store (put_status sod f c conns s teacherId v)) \<noteq> timeRecords s"
    and "\<not> save_fails f" and "castBoolean v \<noteq> None"
  shows "\<exists>t'. findById (teachers (store (put_status sod f c conns s teacherId v))) teacherId
            = Some t'
          \<and> \<not> isAvailable t' \<and> lastAvailableTimestamp t' = None"
proof -
  from assms(1) have falsy: "\<not> truthy v"
    using put_status_truthy_ledger by blast
  from assms(3) obtain b where cast: "castBoolean v = Some b" by blast
  with falsy have b: "\<not> b" by (rule castBoolean_falsy)
  from assms(1) obtain t where live: "\<not> findById_fails f"
    and found: "findById (teachers s) teacherId = Some t"
    unfolding put_status_def by (auto simp: Let_def split: option.splits if_splits)
  from assms(1) live found obtain s1
    where tt: "timeTracking sod f c s teacherId t v = Inr s1"
    unfolding put_status_def by (auto simp: Let_def split: sum.splits)
  have "oid t = teacherId" using found by (simp add: findById_Some)
  then show ?thesis
    using live found tt cast b falsy assms(2) timeTracking_teachers [OF tt]
    by (auto simp: put_status_def Let_def findById_save)
qed

subsection \<open>The downward transition\<close>

text \<open>
  C1 (as amended). For every teacher whose current \<open>isAvailable\<close> is true and whose
  \<open>lastAvailableTimestamp\<close> is present, a status request with \<open>isAvailable = false\<close>
  during which no store operation fails commits the elapsed session seconds
  (the duration reading of the clock minus the timestamp) through the upsert-increment to
  the record keyed by the teacher id and the start of the day of the day reading: a
  record for that key that was absent is created from zero, an existing one is
  incremented. The stored teacher then has \<open>isAvailable = false\<close> and no timestamp, and
  that teacher is the response.
\<close>

theorem C1_down_transition_commits_session:
  assumes "findById (teachers s) teacherId = Some t" and "isAvailable t"
    and "lastAvailableTimestamp t = Some ts"
    and "\<not> findById_fails f" and "\<not> findOneAndUpdate_fails f"
    and "\<not> save_fails f" and "\<not> find_fails f"
  shows "findOne (timeRecords (store (put_status sod f c conns s teacherId (JBool False))))
           teacherId (sod (now_today c))
         = Some (case findOne (timeRecords s) teacherId (sod (now_today c)) of
                   None \<Rightarrow> \<lparr>teacher = teacherId, date = sod (now_today c),
                            totalAvailableTime = 0 + sessionDuration (now_duration c) ts\<rparr>
                 | Some r \<Rightarrow> r\<lparr>totalAvailableTime :=
                              totalAvailableTime r + sessionDuration (now_duration c) ts\<rparr>)
    \<and> timeRecords (store (put_status sod f c conns s teacherId (JBool False)))
         = findOneAndUpdate_inc (timeRecords s) teacherId (sod (now_today c))
             (sessionDuration (now_duration c) ts)
    \<and> findById (teachers (store (put_status sod f c conns s teacherId (JBool False)))) teacherId
         = Some (t\<lparr>isAvailable := False, lastAvailableTimestamp := None\<rparr>)
    \<and> response (put_status sod f c conns s teacherId (JBool False))
         = Inr (t\<lparr>isAvailable := False, lastAvailableTimestamp := None\<rparr>)"
proof -
  have "oid t = teacherId" using assms(1) by (simp add: findById_Some)
  then show ?thesis using assms
    by (simp add: put_status_def timeTracking_def Let_def castBoolean_JBool findById_save
          findOne_inc_same)
qed

theorem C1_session_of_125_seconds:
  "findById (teachers (roster_only [T_since 0])) 1 = Some (T_since 0)
   \<and> isAvailable (T_since 0) \<and> lastAvailableTimestamp (T_since 0) = Some 0
   \<and> findOne (timeRecords (store (put_status startOfDay_utc no_faults (at_instant 125000) []
        (roster_only [T_since 0]) 1 (JBool False)))) 1 0
       = Some \<lparr>teacher = 1, date = 0, totalAvailableTime = 125\<rparr>
   \<and> response (put_status startOfDay_utc no_faults (at_instant 125000) []
        (roster_only [T_since 0]) 1 (JBool False)) = Inr T0"
  using C1_down_transition_commits_session
    [of "roster_only [T_since 0]" 1 "T_since 0" 0 no_faults startOfDay_utc
      "at_instant 125000" "[]"]
  by (simp add: fixture_defs)

text \<open>The claim as stated fails for an available teacher whose timestamp is missing:
  the request succeeds and no record is written.\<close>

theorem C1_available_without_timestamp_commits_nothing:
  "isAvailable T_legacy
   \<and> response (put_status startOfDay_utc no_faults (at_instant 125000) []
        (roster_only [T_legacy]) 1 (JBool False)) = Inr T0
   \<and> findOne (timeRecords (store (put_status startOfDay_utc no_faults (at_instant 125000) []
        (roster_only [T_legacy]) 1 (JBool False)))) 1 (startOfDay_utc 125000) = None"
  by (simp add: put_status_def timeTracking_def Let_def fixture_defs)

text \<open>
  C10. When the stored teacher has \<open>isAvailable = true\<close> and no
  \<open>lastAvailableTimestamp\<close>, a request with \<open>isAvailable = false\<close> leaves the time
  records as they are (whether or not the ledger would have failed), and succeeds: the
  teacher is stored and returned with \<open>isAvailable = false\<close> and the timestamp cleared.
\<close>

theorem C10_missing_timestamp_skips_ledger:
  assumes "findById (teachers s) teacherId = Some t" and "isAvailable t"
    and "lastAvailableTimestamp t = None"
    and "\<not> findById_fails f" and "\<not> save_fails f" and "\<not> find_fails f"
  shows "timeRecords (store (put_status sod f c conns s teacherId (JBool False))) = timeRecords s
    \<and> response (put_status sod f c conns s teacherId (JBool False))
        = Inr (t\<lparr>isAvailable := False, lastAvailableTimestamp := None\<rparr>)
    \<and> findById (teachers (store (put_status sod f c conns s teacherId (JBool False)))) teacherId
        = Some (t\<lparr>isAvailable := False, lastAvailableTimestamp := None\<rparr>)"
proof -
  have "oid t = teacherId" using assms(1) by (simp add: findById_Some)
  then show ?thesis using assms
    by (simp add: put_status_def timeTracking_def Let_def castBoolean_JBool findById_save)
qed

theorem C10_legacy_teacher_goes_unavailable:
  "findById (teachers (roster_only [T_legacy])) 1 = Some T_legacy
   \<and> isAvailable T_legacy \<and> lastAvailableTimestamp T_legacy = None
   \<and> timeRecords (store (put_status startOfDay_utc no_faults (at_instant 5000) [7]
        (roster_only [T_legacy]) 1 (JBool False))) = []
   \<and> response (put_status startOfDay_utc no_faults (at_instant 5000) [7]
        (roster_only [T_legacy]) 1 (JBool False)) = Inr T0
   \<and> findById (teachers (store (put_status startOfDay_utc no_faults (at_instant 5000) [7]
        (roster_only [T_legacy]) 1 (JBool False)))) 1 = Some T0"
  using C10_missing_timestamp_skips_ledger
    [of "roster_only [T_legacy]" 1 T_legacy no_faults startOfDay_utc "at_instant 5000" "[7]"]
  by (simp add: fixture_defs)

text \<open>
  C2. When the ledger write of an available-to-unavailable transition throws, the handler
  stops there: the store is exactly what it was (no time record changed, the teacher
  still available with its original timestamp), the response is the server error, and
  nothing is broadcast. The flags of the later store operations play no role.
\<close>

theorem C2_ledger_failure_aborts_before_flip:
  assumes "findById (teachers s) teacherId = Some t" and "isAvailable t"
    and "lastAvailableTimestamp t = Some ts"
    and "\<not> findById_fails f" and "findOneAndUpdate_fails f"
  shows "store (put_status sod f c conns s teacherId (JBool False)) = s
    \<and> response (put_status sod f c conns s teacherId (JBool False)) = Inl ServerError
    \<and> emitted (put_status sod f c conns s teacherId (JBool False)) = []
    \<and> findById (teachers (store (put_status sod f c conns s teacherId (JBool False)))) teacherId
        = Some t"
  using assms by (simp add: put_status_def timeTracking_def Let_def castBoolean_JBool)

theorem C2_failed_ledger_write_keeps_session_open:
  "findById (teachers (roster_only [T_since 0])) 1 = Some (T_since 0)
   \<and> isAvailable (T_since 0) \<and> lastAvailableTimestamp (T_since 0) = Some 0
   \<and> \<not> findById_fails (no_faults\<lparr>findOneAndUpdate_fails := True\<rparr>)
   \<and> findOneAndUpdate_fails (no_faults\<lparr>findOneAndUpdate_fails := True\<rparr>)
   \<and> store (put_status startOfDay_utc (no_faults\<lparr>findOneAndUpdate_fails := True\<rparr>)
        (at_instant 125000) [7] (roster_only [T_since 0]) 1 (JBool False)) = roster_only [T_since 0]
   \<and> response (put_status startOfDay_utc (no_faults\<lparr>findOneAndUpdate_fails := True\<rparr>)
        (at_instant 125000) [7] (roster_only [T_since 0]) 1 (JBool False)) = Inl ServerError
   \<and> emitted (put_status startOfDay_utc (no_faults\<lparr>findOneAndUpdate_fails := True\<rparr>)
        (at_instant 125000) [7] (roster_only [T_since 0]) 1 (JBool False)) = []"
  using C2_ledger_failure_aborts_before_flip
    [of "roster_only [T_since 0]" 1 "T_since 0" 0
      "no_faults\<lparr>findOneAndUpdate_fails := True\<rparr>" startOfDay_utc "at_instant 125000" "[7]"]
  by (simp add: fixture_defs)

text \<open>
  C3 (as amended). On an available-to-unavailable transition of a teacher with a
  timestamp, the seconds committed to the day's record are exactly the duration reading
  of the clock minus \<open>lastAvailableTimestamp\<close>, in milliseconds, divided by 1000. There
  is no clamp: the value is non-negative exactly when the clock reading is not earlier
  than the timestamp, and it is 0 exactly for a session of no duration.
\<close>

theorem C3_committed_seconds_are_the_difference:
  assumes "findById (teachers s) teacherId = Some t" and "isAvailable t"
    and "lastAvailableTimestamp t = Some ts"
    and "\<not> findById_fails f" and "\<not> findOneAndUpdate_fails f"
  shows "committed (timeRecords (store (put_status sod f c conns s teacherId (JBool False))))
           teacherId (sod (now_today c))
         = committed (timeRecords s) teacherId (sod (now_today c))
           + sessionDuration (now_duration c) ts
    \<and> sessionDuration (now_duration c) ts = of_int (now_duration c - ts) / 1000
    \<and> (0 \<le> sessionDuration (now_duration c) ts) = (ts \<le> now_duration c)
    \<and> (sessionDuration (now_duration c) ts = 0) = (now_duration c = ts)"
proof -
  have "timeRecords (store (put_status sod f c conns s teacherId (JBool False)))
        = findOneAndUpdate_inc (timeRecords s) teacherId (sod (now_today c))
             (sessionDuration (now_duration c) ts)"
    using assms by (simp add: put_status_def timeTracking_def Let_def castBoolean_JBool)
  then show ?thesis
    by (simp add: committed_inc sessionDuration_def)
qed

theorem C3_immediate_retoggle_contributes_zero:
  "findById (teachers (roster_only [T_since 7000])) 1 = Some (T_since 7000)
   \<and> isAvailable (T_since 7000) \<and> lastAvailableTimestamp (T_since 7000) = Some 7000
   \<and> committed (timeRecords (store (put_status startOfDay_utc no_faults (at_instant 7000) []
        (roster_only [T_since 7000]) 1 (JBool False)))) 1 0 = 0
   \<and> sessionDuration 7000 7000 = 0"
  using C3_committed_seconds_are_the_difference
    [of "roster_only [T_since 7000]" 1 "T_since 7000" 7000 no_faults startOfDay_utc
      "at_instant 7000" "[]"]
  by (simp add: fixture_defs)

text \<open>The claim as stated fails when the clock reads earlier than the stored timestamp:
  a session stamped at 5000 ms and closed at a reading of 2000 ms commits \<open>-3\<close> seconds,
  not 0.\<close>

theorem C3_clock_skew_commits_negative_seconds:
  "isAvailable (T_since 5000) \<and> lastAvailableTimestamp (T_since 5000) = Some 5000
   \<and> response (put_status startOfDay_utc no_faults (at_instant 2000) []
        (roster_only [T_since 5000]) 1 (JBool False)) = Inr T0
   \<and> timeRecords (store (put_status startOfDay_utc no_faults (at_instant 2000) []
        (roster_only [T_since 5000]) 1 (JBool False)))
       = [\<lparr>teacher = 1, date = 0, totalAvailableTime = - 3\<rparr>]"
  by (simp add: put_status_def timeTracking_def Let_def fixture_defs)

subsection \<open>Repeated requests\<close>

text \<open>
  C4 (as amended). When a status request has succeeded and the next request of the same
  teacher asks for the same boolean, the second request writes nothing to the ledger,
  whatever its clock readings and whichever of its store operations fail. When both
  ask for \<open>false\<close>, the second leaves the whole store as it was, so
  \<open>lastAvailableTimestamp\<close> stays absent.
\<close>

theorem C4_same_status_again_writes_no_ledger:
  assumes "response (put_status sod f1 c1 conns1 s teacherId (JBool b)) = Inr t1"
  shows "timeRecords (store (put_status sod f2 c2 conns2
            (store (put_status sod f1 c1 conns1 s teacherId (JBool b))) teacherId (JBool b)))
         = timeRecords (store (put_status sod f1 c1 conns1 s teacherId (JBool b)))
    \<and> (\<not> b \<longrightarrow>
         lastAvailableTimestamp t1 = None
         \<and> store (put_status sod f2 c2 conns2
              (store (put_status sod f1 c1 conns1 s teacherId (JBool b))) teacherId (JBool b))
           = store (put_status sod f1 c1 conns1 s teacherId (JBool b)))"
proof -
  note first = put_status_success [OF assms]
  have found: "findById (teachers (store (put_status sod f1 c1 conns1 s teacherId (JBool b))))
      teacherId = Some t1"
    using first by blast
  have avail: "isAvailable t1 = b"
    using first by (simp add: castBoolean_JBool)
  have stamp: "lastAvailableTimestamp t1 = (if b then Some (now_stamp c1) else None)"
    using first by simp
  have ledger: "timeRecords (store (put_status sod f2 c2 conns2
            (store (put_status sod f1 c1 conns1 s teacherId (JBool b))) teacherId (JBool b)))
         = timeRecords (store (put_status sod f1 c1 conns1 s teacherId (JBool b)))"
    by (rule put_status_same_status_ledger [OF found]) (simp add: avail)
  have "store (put_status sod f2 c2 conns2
              (store (put_status sod f1 c1 conns1 s teacherId (JBool b))) teacherId (JBool b))
           = store (put_status sod f1 c1 conns1 s teacherId (JBool b))" if "\<not> b"
    using that put_status_false_again [OF found] avail stamp by simp
  then show ?thesis using ledger stamp by simp
qed

theorem C4_second_false_at_126_changes_nothing:
  "response (put_status startOfDay_utc no_faults (at_instant 125000) []
      (roster_only [T_since 0]) 1 (JBool False)) = Inr T0
   \<and> timeRecords (store (put_status startOfDay_utc no_faults (at_instant 126000) []
        (store (put_status startOfDay_utc no_faults (at_instant 125000) []
           (roster_only [T_since 0]) 1 (JBool False))) 1 (JBool False)))
      = [\<lparr>teacher = 1, date = 0, totalAvailableTime = 125\<rparr>]
   \<and> lastAvailableTimestamp T0 = None
   \<and> store (put_status startOfDay_utc no_faults (at_instant 126000) []
        (store (put_status startOfDay_utc no_faults (at_instant 125000) []
           (roster_only [T_since 0]) 1 (JBool False))) 1 (JBool False))
      = store (put_status startOfDay_utc no_faults (at_instant 125000) []
           (roster_only [T_since 0]) 1 (JBool False))"
proof -
  have r: "response (put_status startOfDay_utc no_faults (at_instant 125000) []
      (roster_only [T_since 0]) 1 (JBool False)) = Inr T0"
    by (simp add: put_status_def timeTracking_def Let_def fixture_defs)
  have l: "timeRecords (store (put_status startOfDay_utc no_faults (at_instant 125000) []
           (roster_only [T_since 0]) 1 (JBool False)))
         = [\<lparr>teacher = 1, date = 0, totalAvailableTime = 125\<rparr>]"
    by (simp add: put_status_def timeTracking_def Let_def fixture_defs)
  show ?thesis
    using C4_same_status_again_writes_no_ledger [OF r, of no_faults "at_instant 126000" "[]"]
      r l
    by (simp add: T0_def)
qed

text \<open>The claim as stated fails for two requests with \<open>true\<close>: the second one
  stores its own clock reading as \<open>lastAvailableTimestamp\<close>.\<close>

theorem C4_second_true_overwrites_timestamp:
  "response (put_status startOfDay_utc no_faults (at_instant 1000) []
      (roster_only [T0]) 1 (JBool True)) = Inr (T_since 1000)
   \<and> store (put_status startOfDay_utc no_faults (at_instant 1000) []
      (roster_only [T0]) 1 (JBool True)) = roster_only [T_since 1000]
   \<and> response (put_status startOfDay_utc no_faults (at_instant 2000) []
      (roster_only [T_since 1000]) 1 (JBool True)) = Inr (T_since 2000)
   \<and> store (put_status startOfDay_utc no_faults (at_instant 2000) []
      (roster_only [T_since 1000]) 1 (JBool True)) = roster_only [T_since 2000]
   \<and> lastAvailableTimestamp (T_since 2000) \<noteq> lastAvailableTimestamp (T_since 1000)"
  by (simp add: put_status_def timeTracking_def Let_def fixture_defs io_emit_def)

subsection \<open>The Teacher invariant\<close>

text \<open>Registration keeps the invariant, and so does a status request whose body Mongoose
  casts to what JavaScript tests it as (every boolean, 0, 1, the strings true, 1 and
  yes, null, a missing field) or cannot cast at all.\<close>

lemma register_keeps_invariant:
  assumes "invariant_teachers s"
  shows "invariant_teachers (fst (register hash newId f s n e p ph r))"
  using assms unfolding invariant_teachers_def register_def
  by (auto simp: Let_def invariant_Teacher_def split: option.splits)

lemma put_status_keeps_invariant:
  assumes "invariant_teachers s" and "castBoolean v \<noteq> Some (\<not> truthy v)"
  shows "invariant_teachers (store (put_status sod f c conns s teacherId v))"
  using assms unfolding invariant_teachers_def put_status_def
  by (auto simp: Let_def invariant_Teacher_def list_all_save
        split: option.splits sum.splits dest: timeTracking_teachers)

text \<open>
  C5. The two assignments of the handler aim at the invariant (the timestamp is set
  exactly when the status is), but they convert the body's value differently: the
  status is Mongoose's cast of it, the timestamp follows its truthiness. For the
  unavailable teacher T0, who satisfies the invariant, the body whose \<open>isAvailable\<close> is
  the string false is answered with success; the stored and returned teacher has
  \<open>isAvailable = false\<close> and the timestamp of the request, and the invariant is broken.
\<close>

theorem C5_string_false_stores_timestamp_on_unavailable_teacher:
  "invariant_teachers (roster_only [T0])
   \<and> response (put_status startOfDay_utc no_faults (at_instant 1000) [] (roster_only [T0]) 1
        (JStr ''false'')) = Inr (T0\<lparr>lastAvailableTimestamp := Some 1000\<rparr>)
   \<and> store (put_status startOfDay_utc no_faults (at_instant 1000) [] (roster_only [T0]) 1
        (JStr ''false'')) = roster_only [T0\<lparr>lastAvailableTimestamp := Some 1000\<rparr>]
   \<and> isAvailable (T0\<lparr>lastAvailableTimestamp := Some 1000\<rparr>) = False
   \<and> \<not> invariant_teachers (store (put_status startOfDay_utc no_faults (at_instant 1000) []
        (roster_only [T0]) 1 (JStr ''false'')))"
  by (simp add: put_status_def timeTracking_def Let_def invariant_teachers_def
        invariant_Teacher_def fixture_defs)

subsection \<open>Reading today's total\<close>

text \<open>
  C7 (as amended). The my-time handler answers with the \<open>totalAvailableTime\<close> of the
  first stored record whose teacher is the caller and whose date is the start of today,
  and with 0 when no stored record has that teacher and date. After a session is closed
  with no record of that teacher and day before, a read on the same day answers exactly
  the session's duration. The answer does not depend on the Teacher collection, and a
  request with a truthy body (going available) leaves it as it was at every later
  reading of the clock. A status request that changes the time records and whose save
  of the teacher goes through leaves that teacher unavailable with no timestamp: the
  time it added is that of a closed session.
\<close>

theorem C7_my_time_reads_committed_total:
  "(\<not> findOne_fails g \<and> timeRecords s = pre @ r # post
      \<and> teacher r = teacherId \<and> date r = sod now
      \<and> list_all (\<lambda>x. \<not> (teacher x = teacherId \<and> date x = sod now)) pre \<longrightarrow>
      get_my_time sod g now s teacherId = Inr (totalAvailableTime r))
   \<and> (\<not> findOne_fails g
      \<and> list_all (\<lambda>x. \<not> (teacher x = teacherId \<and> date x = sod now)) (timeRecords s) \<longrightarrow>
      get_my_time sod g now s teacherId = Inr 0)
   \<and> (findById (teachers s) teacherId = Some t \<and> isAvailable t
        \<and> lastAvailableTimestamp t = Some ts
        \<and> list_all (\<lambda>x. \<not> (teacher x = teacherId \<and> date x = sod (now_today c)))
             (timeRecords s)
        \<and> \<not> findById_fails f \<and> \<not> findOneAndUpdate_fails f
        \<and> sod now = sod (now_today c) \<and> \<not> findOne_fails g \<longrightarrow>
      get_my_time sod g now (store (put_status sod f c conns s teacherId (JBool False)))
        teacherId
      = Inr (sessionDuration (now_duration c) ts))
   \<and> get_my_time sod g now (s\<lparr>teachers := ts'\<rparr>) teacherId
      = get_my_time sod g now s teacherId
   \<and> (truthy v \<longrightarrow>
      get_my_time sod g now (store (put_status sod f c conns s teacherId' v)) teacherId
      = get_my_time sod g now s teacherId)
   \<and> (timeRecords (store (put_status sod f c conns s teacherId' v)) \<noteq> timeRecords s
        \<and> \<not> save_fails f \<and> castBoolean v \<noteq> None \<longrightarrow>
      (\<exists>t'. findById (teachers (store (put_status sod f c conns s teacherId' v))) teacherId'
              = Some t'
            \<and> \<not> isAvailable t' \<and> lastAvailableTimestamp t' = None))"
proof (intro conjI impI)
  assume "\<not> findOne_fails g \<and> timeRecords s = pre @ r # post
      \<and> teacher r = teacherId \<and> date r = sod now
      \<and> list_all (\<lambda>x. \<not> (teacher x = teacherId \<and> date x = sod now)) pre"
  then show "get_my_time sod g now s teacherId = Inr (totalAvailableTime r)"
    by (simp add: get_my_time_def committed_def findOne_first_match)
next
  assume "\<not> findOne_fails g
      \<and> list_all (\<lambda>x. \<not> (teacher x = teacherId \<and> date x = sod now)) (timeRecords s)"
  then show "get_my_time sod g now s teacherId = Inr 0"
    by (simp add: get_my_time_def committed_def findOne_no_match)
next
  assume h: "findById (teachers s) teacherId = Some t \<and> isAvailable t
        \<and> lastAvailableTimestamp t = Some ts
        \<and> list_all (\<lambda>x. \<not> (teacher x = teacherId \<and> date x = sod (now_today c)))
             (timeRecords s)
        \<and> \<not> findById_fails f \<and> \<not> findOneAndUpdate_fails f
        \<and> sod now = sod (now_today c) \<and> \<not> findOne_fails g"
  have "timeRecords (store (put_status sod f c conns s teacherId (JBool False)))
        = findOneAndUpdate_inc (timeRecords s) teacherId (sod (now_today c))
             (sessionDuration (now_duration c) ts)"
    using h by (auto simp: put_status_def timeTracking_def Let_def split: option.splits)
  moreover have "committed (timeRecords s) teacherId (sod (now_today c)) = 0"
    using h by (simp add: committed_def findOne_no_match)
  ultimately show "get_my_time sod g now
        (store (put_status sod f c conns s teacherId (JBool False))) teacherId
      = Inr (sessionDuration (now_duration c) ts)"
    using h by (simp add: get_my_time_def committed_inc)
next
  show "get_my_time sod g now (s\<lparr>teachers := ts'\<rparr>) teacherId
      = get_my_time sod g now s teacherId"
    by (simp add: get_my_time_def)
next
  assume "truthy v"
  then show "get_my_time sod g now (store (put_status sod f c conns s teacherId' v)) teacherId
      = get_my_time sod g now s teacherId"
    by (simp add: get_my_time_def put_status_truthy_ledger)
next
  assume "timeRecords (store (put_status sod f c conns s teacherId' v)) \<noteq> timeRecords s
        \<and> \<not> save_fails f \<and> castBoolean v \<noteq> None"
  then show "\<exists>t'. findById (teachers (store (put_status sod f c conns s teacherId' v)))
              teacherId' = Some t'
            \<and> \<not> isAvailable t' \<and> lastAvailableTimestamp t' = None"
    using ledger_change_closes_session by blast
qed

theorem C7_my_time_after_one_session_of_125_seconds:
  "findById (teachers \<lparr>teachers = [T_since 0], timeRecords = other_records\<rparr>) 1
     = Some (T_since 0)
   \<and> isAvailable (T_since 0) \<and> lastAvailableTimestamp (T_since 0) = Some 0
   \<and> list_all (\<lambda>x. \<not> (teacher x = 1 \<and> date x = startOfDay_utc 125000)) other_records
   \<and> startOfDay_utc 130000 = startOfDay_utc 125000
   \<and> get_my_time startOfDay_utc no_faults 130000
        \<lparr>teachers = [T_since 0], timeRecords = other_records\<rparr> 1 = Inr 0
   \<and> timeRecords (store (put_status startOfDay_utc no_faults (at_instant 125000) []
        \<lparr>teachers = [T_since 0], timeRecords = other_records\<rparr> 1 (JBool False)))
      = other_records @ [\<lparr>teacher = 1, date = 0, totalAvailableTime = 125\<rparr>]
   \<and> get_my_time startOfDay_utc no_faults 130000
        (store (put_status startOfDay_utc no_faults (at_instant 125000) []
           \<lparr>teachers = [T_since 0], timeRecords = other_records\<rparr> 1 (JBool False))) 1
      = Inr 125
   \<and> get_my_time startOfDay_utc no_faults 130000
        \<lparr>teachers = [T0],
         timeRecords = other_records @ [\<lparr>teacher = 1, date = 0, totalAvailableTime = 125\<rparr>]\<rparr> 2
      = Inr 50
   \<and> get_my_time startOfDay_utc no_faults 130000
        \<lparr>teachers = [T0],
         timeRecords = other_records @ [\<lparr>teacher = 1, date = 0, totalAvailableTime = 125\<rparr>]\<rparr> 1
      = Inr 125
   \<and> findById (teachers (store (put_status startOfDay_utc no_faults (at_instant 125000) []
        \<lparr>teachers = [T_since 0], timeRecords = other_records\<rparr> 1 (JBool False)))) 1
      = Some T0"
  using
    C7_my_time_reads_committed_total
      [where g = no_faults and sod = startOfDay_utc and now = 130000
        and s = "\<lparr>teachers = [T_since 0], timeRecords = other_records\<rparr>"
        and teacherId = 1 and t = "T_since 0" and ts = 0 and c = "at_instant 125000"
        and f = no_faults and conns = "[]" and v = "JBool False" and teacherId' = 1]
    C7_my_time_reads_committed_total
      [where g = no_faults and sod = startOfDay_utc and now = 130000
        and s = "\<lparr>teachers = [T0],
          timeRecords = other_records @ [\<lparr>teacher = 1, date = 0, totalAvailableTime = 125\<rparr>]\<rparr>"
        and teacherId = 2 and pre = "[]"
        and r = "\<lparr>teacher = 2, date = 0, totalAvailableTime = 50\<rparr>"
        and post = "[\<lparr>teacher = 1, date = - 86400000, totalAvailableTime = 70\<rparr>,
          \<lparr>teacher = 1, date = 0, totalAvailableTime = 125\<rparr>]"]
    C7_my_time_reads_committed_total
      [where g = no_faults and sod = startOfDay_utc and now = 130000
        and s = "\<lparr>teachers = [T0],
          timeRecords = other_records @ [\<lparr>teacher = 1, date = 0, totalAvailableTime = 125\<rparr>]\<rparr>"
        and teacherId = 1 and pre = other_records
        and r = "\<lparr>teacher = 1, date = 0, totalAvailableTime = 125\<rparr>" and post = "[]"]
  by (simp add: put_status_def timeTracking_def get_my_time_def Let_def fixture_defs)

text \<open>The claim as stated fails in its last part: when the save of a closing request
  throws after the ledger write, the teacher is still available since 0 and the read
  answers with the 125 seconds of that open session.\<close>

theorem C7_failed_save_leaves_open_session_counted:
  "store (put_status startOfDay_utc (no_faults\<lparr>save_fails := True\<rparr>) (at_instant 125000) []
        (roster_only [T_since 0]) 1 (JBool False))
     = \<lparr>teachers = [T_since 0],
        timeRecords = [\<lparr>teacher = 1, date = 0, totalAvailableTime = 125\<rparr>]\<rparr>
   \<and> isAvailable (T_since 0) \<and> lastAvailableTimestamp (T_since 0) = Some 0
   \<and> get_my_time startOfDay_utc no_faults 130000
        (store (put_status startOfDay_utc (no_faults\<lparr>save_fails := True\<rparr>)
           (at_instant 125000) [] (roster_only [T_since 0]) 1 (JBool False))) 1
      = Inr 125"
  by (simp add: put_status_def timeTracking_def get_my_time_def Let_def fixture_defs)

subsection \<open>Broadcast\<close>

text \<open>
  C8. Whatever the body, a successful status request sends to every connected socket one
  \<^verbatim>\<open>statusUpdate\<close> whose payload is the roster read from the store the request leaves
  behind, in which the teacher has the new status. Whatever fails, every event that
  is sent carries that roster and the request has succeeded; when the save throws
  nothing is sent. The roster has one entry per stored teacher, in order, with the same
  status, and no entry has a password.
\<close>

theorem C8_broadcast_carries_committed_roster:
  "(\<forall>t'. response (put_status sod f c conns s teacherId v) = Inr t' \<longrightarrow>
       emitted (put_status sod f c conns s teacherId v)
       = map (\<lambda>sid. (sid, statusUpdate (select_minus_password
            (teachers (store (put_status sod f c conns s teacherId v)))))) conns
       \<and> findById (teachers (store (put_status sod f c conns s teacherId v))) teacherId
         = Some t')
   \<and> (\<forall>m \<in> set (emitted (put_status sod f c conns s teacherId v)).
         snd m = statusUpdate (select_minus_password
            (teachers (store (put_status sod f c conns s teacherId v))))
         \<and> (\<exists>t'. response (put_status sod f c conns s teacherId v) = Inr t'))
   \<and> (save_fails f \<longrightarrow> emitted (put_status sod f c conns s teacherId v) = [])
   \<and> map oid (select_minus_password ts) = map oid ts
   \<and> map isAvailable (select_minus_password ts) = map isAvailable ts
   \<and> list_all (\<lambda>t. password t = None) (select_minus_password ts)"
proof (intro conjI allI impI ballI)
  fix t' assume r: "response (put_status sod f c conns s teacherId v) = Inr t'"
  show "emitted (put_status sod f c conns s teacherId v)
       = map (\<lambda>sid. (sid, statusUpdate (select_minus_password
            (teachers (store (put_status sod f c conns s teacherId v)))))) conns"
    using put_status_success [OF r] by (simp add: io_emit_def)
  show "findById (teachers (store (put_status sod f c conns s teacherId v))) teacherId
         = Some t'"
    using put_status_success [OF r] by simp
next
  fix m assume m: "m \<in> set (emitted (put_status sod f c conns s teacherId v))"
  then obtain t' where r: "response (put_status sod f c conns s teacherId v) = Inr t'"
    using emitted_needs_success by blast
  then show "\<exists>t'. response (put_status sod f c conns s teacherId v) = Inr t'" by blast
  show "snd m = statusUpdate (select_minus_password
            (teachers (store (put_status sod f c conns s teacherId v))))"
    using put_status_success [OF r] m by (auto simp: io_emit_def)
next
  assume "save_fails f"
  then show "emitted (put_status sod f c conns s teacherId v) = []"
    by (rule save_fails_no_emit)
next
  show "map oid (select_minus_password ts) = map oid ts"
    by (simp add: select_minus_password_def)
  show "map isAvailable (select_minus_password ts) = map isAvailable ts"
    by (simp add: select_minus_password_def)
  show "list_all (\<lambda>t. password t = None) (select_minus_password ts)"
    by (simp add: select_minus_password_def list_all_iff)
qed

theorem C8_going_available_reaches_both_sockets:
  "response (put_status startOfDay_utc no_faults (at_instant 0) [7, 8] (roster_only [T0]) 1 (JBool True))
     = Inr (T_since 0)
   \<and> emitted (put_status startOfDay_utc no_faults (at_instant 0) [7, 8] (roster_only [T0]) 1 (JBool True))
     = [(7, statusUpdate [T_since 0\<lparr>password := None\<rparr>]),
        (8, statusUpdate [T_since 0\<lparr>password := None\<rparr>])]
   \<and> store (put_status startOfDay_utc no_faults (at_instant 0) [7, 8] (roster_only [T0]) 1 (JBool True))
     = roster_only [T_since 0]
   \<and> save_fails (no_faults\<lparr>save_fails := True\<rparr>)
   \<and> emitted (put_status startOfDay_utc (no_faults\<lparr>save_fails := True\<rparr>) (at_instant 0) [7, 8]
        (roster_only [T0]) 1 (JBool True)) = []"
proof -
  have r: "response (put_status startOfDay_utc no_faults (at_instant 0) [7, 8]
      (roster_only [T0]) 1 (JBool True)) = Inr (T_since 0)"
    by (simp add: put_status_def timeTracking_def Let_def fixture_defs)
  have s: "store (put_status startOfDay_utc no_faults (at_instant 0) [7, 8]
      (roster_only [T0]) 1 (JBool True)) = roster_only [T_since 0]"
    by (simp add: put_status_def timeTracking_def Let_def fixture_defs)
  have f: "save_fails (no_faults\<lparr>save_fails := True\<rparr>)" by simp
  show ?thesis
    using r s f
      C8_broadcast_carries_committed_roster
        [of startOfDay_utc no_faults "at_instant 0" "[7, 8]" "roster_only [T0]" 1 "JBool True" "[]"]
      C8_broadcast_carries_committed_roster
        [of startOfDay_utc "no_faults\<lparr>save_fails := True\<rparr>" "at_instant 0" "[7, 8]"
          "roster_only [T0]" 1 "JBool True" "[]"]
    by (simp add: select_minus_password_def roster_only_def)
qed




subsection \<open>The ledger invariant\<close>

lemma list_all_inc:
  assumes "list_all P rs"
    and "\<And>r. P r \<Longrightarrow> P (r\<lparr>totalAvailableTime := totalAvailableTime r + delta\<rparr>)"
    and "P \<lparr>teacher = tid, date = d, totalAvailableTime = 0 + delta\<rparr>"
  shows "list_all P (findOneAndUpdate_inc rs tid d delta)"
  using assms by (induction rs) auto

lemma keys_inc:
  "map record_key (findOneAndUpdate_inc rs tid d delta) =
     (if (tid, d) \<in> set (map record_key rs) then map record_key rs
      else map record_key rs @ [(tid, d)])"
  by (induction rs) (auto simp: record_key_def)

lemma findOne_None_iff: "findOne rs tid d = None \<longleftrightarrow> (tid, d) \<notin> set (map record_key rs)"
  unfolding findOne_def by (induction rs) (auto simp: record_key_def)

lemma invariant_timeRecords_inc:
  assumes "invariant_timeRecords rs" and "0 \<le> delta"
  shows "invariant_timeRecords (findOneAndUpdate_inc rs tid d delta)"
proof -
  have "list_all (\<lambda>r. 0 \<le> totalAvailableTime r) (findOneAndUpdate_inc rs tid d delta)"
    using assms by (intro list_all_inc) (auto simp: invariant_timeRecords_def)
  moreover have "distinct (map record_key (findOneAndUpdate_inc rs tid d delta))"
    using assms(1) by (simp add: keys_inc invariant_timeRecords_def)
  ultimately show ?thesis by (simp add: invariant_timeRecords_def)
qed

lemma put_status_ledger_cases:
  "timeRecords (store (put_status sod f c conns s teacherId v)) = timeRecords s
   \<or> (\<exists>t ts. findById (teachers s) teacherId = Some t \<and> isAvailable t \<and> \<not> truthy v
         \<and> lastAvailableTimestamp t = Some ts
         \<and> timeRecords (store (put_status sod f c conns s teacherId v))
           = findOneAndUpdate_inc (timeRecords s) teacherId (sod (now_today c))
               (sessionDuration (now_duration c) ts))"
  unfolding put_status_def
  by (auto simp: Let_def timeTracking_def split: option.splits)

lemma stamps_le_found:
  "stamps_le n s \<Longrightarrow> findById (teachers s) tid = Some t
   \<Longrightarrow> lastAvailableTimestamp t = Some ts \<Longrightarrow> ts \<le> n"
  by (auto simp: stamps_le_def list_all_iff dest!: findById_Some)

lemma stamps_le_mono: "stamps_le lo s \<Longrightarrow> lo \<le> n \<Longrightarrow> stamps_le n s"
  by (auto simp: stamps_le_def list_all_iff split: option.splits)

lemma stamps_le_put_status:
  assumes "stamps_le n s" and "now_stamp c \<le> n"
  shows "stamps_le n (store (put_status sod f c conns s teacherId v))"
  using assms unfolding stamps_le_def put_status_def
  by (auto simp: Let_def list_all_save split: option.splits sum.splits
        dest: timeTracking_teachers)

lemma sessionDuration_nonneg: "ts \<le> now \<Longrightarrow> 0 \<le> sessionDuration now ts"
  by (simp add: sessionDuration_def)

text \<open>One request.\<close>

lemma serve_ledger:
  assumes "invariant_timeRecords (timeRecords s)" and "stamps_le (now_duration (rq_clock r)) s"
  shows "invariant_timeRecords (timeRecords (store (serve sod s r)))
    \<and> committed (timeRecords s) tid d \<le> committed (timeRecords (store (serve sod s r))) tid d"
proof -
  let ?o = "put_status sod (rq_faults r) (rq_clock r) (rq_conns r) s
       (rq_teacherId r) (rq_isAvailable r)"
  from put_status_ledger_cases [of sod "rq_faults r" "rq_clock r" "rq_conns r" s
      "rq_teacherId r" "rq_isAvailable r"]
  show ?thesis
  proof
    assume "timeRecords (store ?o) = timeRecords s"
    then show ?thesis using assms(1) by (simp add: serve_def)
  next
    assume "\<exists>t ts. findById (teachers s) (rq_teacherId r) = Some t \<and> isAvailable t
         \<and> \<not> truthy (rq_isAvailable r) \<and> lastAvailableTimestamp t = Some ts
         \<and> timeRecords (store ?o)
           = findOneAndUpdate_inc (timeRecords s) (rq_teacherId r)
               (sod (now_today (rq_clock r)))
               (sessionDuration (now_duration (rq_clock r)) ts)"
    then obtain t ts where found: "findById (teachers s) (rq_teacherId r) = Some t"
      and stamp: "lastAvailableTimestamp t = Some ts"
      and ledger: "timeRecords (store ?o)
           = findOneAndUpdate_inc (timeRecords s) (rq_teacherId r)
               (sod (now_today (rq_clock r)))
               (sessionDuration (now_duration (rq_clock r)) ts)"
      by blast
    have "ts \<le> now_duration (rq_clock r)"
      using assms(2) found stamp by (rule stamps_le_found)
    then have nonneg: "0 \<le> sessionDuration (now_duration (rq_clock r)) ts"
      by (rule sessionDuration_nonneg)
    show ?thesis
      using assms(1) nonneg ledger
      by (simp add: serve_def invariant_timeRecords_inc committed_inc)
  qed
qed

lemma run_ledger:
  assumes "invariant_timeRecords (timeRecords s)" and "stamps_le lo s"
    and "chronological lo reqs"
  shows "invariant_timeRecords (timeRecords (run sod s reqs))
    \<and> committed (timeRecords s) tid d \<le> committed (timeRecords (run sod s reqs)) tid d"
  using assms
proof (induction reqs arbitrary: s lo)
  case Nil
  then show ?case by simp
next
  case (Cons r rs)
  let ?s' = "store (serve sod s r)"
  from Cons.prems(3) have lo: "lo \<le> now_duration (rq_clock r)"
    and st: "now_duration (rq_clock r) \<le> now_stamp (rq_clock r)"
    and rest: "chronological (now_stamp (rq_clock r)) rs"
    by simp_all
  have here: "stamps_le (now_duration (rq_clock r)) s"
    using Cons.prems(2) lo by (rule stamps_le_mono)
  have step: "invariant_timeRecords (timeRecords ?s')
    \<and> committed (timeRecords s) tid d \<le> committed (timeRecords ?s') tid d"
    using Cons.prems(1) here by (rule serve_ledger)
  have "stamps_le (now_stamp (rq_clock r)) s"
    using here st by (rule stamps_le_mono)
  then have after: "stamps_le (now_stamp (rq_clock r)) ?s'"
    unfolding serve_def by (rule stamps_le_put_status) simp
  have "invariant_timeRecords (timeRecords (run sod ?s' rs))
    \<and> committed (timeRecords ?s') tid d \<le> committed (timeRecords (run sod ?s' rs)) tid d"
    using step after rest by (intro Cons.IH) simp_all
  then show ?case using step by simp
qed

lemma keys_inc_subset:
  "set (map record_key (findOneAndUpdate_inc rs tid d delta))
     \<subseteq> insert (tid, d) (set (map record_key rs))"
  by (simp add: keys_inc subset_insertI)

lemma serve_creates_lazily:
  assumes absent: "findOne (timeRecords s) tid d = None"
    and present: "findOne (timeRecords (store (serve sod s r))) tid d \<noteq> None"
  shows "tid = rq_teacherId r \<and> d = sod (now_today (rq_clock r)) \<and> \<not> truthy (rq_isAvailable r)
    \<and> (\<exists>t ts. findById (teachers s) tid = Some t \<and> isAvailable t
          \<and> lastAvailableTimestamp t = Some ts)"
proof -
  let ?o = "put_status sod (rq_faults r) (rq_clock r) (rq_conns r) s
       (rq_teacherId r) (rq_isAvailable r)"
  have changed: "timeRecords (store ?o) \<noteq> timeRecords s"
    using absent present by (auto simp: serve_def)
  with put_status_ledger_cases [of sod "rq_faults r" "rq_clock r" "rq_conns r" s
      "rq_teacherId r" "rq_isAvailable r"]
  obtain t ts where found: "findById (teachers s) (rq_teacherId r) = Some t"
    and avail: "isAvailable t" and down: "\<not> truthy (rq_isAvailable r)"
    and stamp: "lastAvailableTimestamp t = Some ts"
    and ledger: "timeRecords (store ?o)
           = findOneAndUpdate_inc (timeRecords s) (rq_teacherId r)
               (sod (now_today (rq_clock r)))
               (sessionDuration (now_duration (rq_clock r)) ts)"
    by blast
  have "(tid, d) \<in> set (map record_key (timeRecords (store ?o)))"
    using present by (simp add: findOne_None_iff serve_def)
  moreover have "(tid, d) \<notin> set (map record_key (timeRecords s))"
    using absent by (simp add: findOne_None_iff)
  ultimately have "(tid, d) = (rq_teacherId r, sod (now_today (rq_clock r)))"
    using keys_inc_subset [of "timeRecords s" "rq_teacherId r"
        "sod (now_today (rq_clock r))" "sessionDuration (now_duration (rq_clock r)) ts"]
    unfolding ledger by blast
  then show ?thesis using found avail down stamp by simp
qed

text \<open>
  C6 (as amended). Start from time records whose totals are not negative, with one
  record per teacher and day, and handle any sequence of status requests (any bodies,
  any faults) during which
  the clock never reads earlier than before (so never earlier than a stored
  \<open>lastAvailableTimestamp\<close>). Then the same holds of the records at the end, and the
  committed total of every teacher and day is at least what it was. The totals are
  seconds as a number that need not be an integer. A record comes into existence only
  through a request with \<open>isAvailable = false\<close> of an available teacher with a
  timestamp, for that teacher and the day of the request.
\<close>

theorem C6_ledger_invariant_under_chronological_requests:
  assumes "invariant_timeRecords (timeRecords s)" and "stamps_le lo s"
    and "chronological lo reqs"
  shows "invariant_timeRecords (timeRecords (run sod s reqs))
    \<and> (\<forall>tid d. committed (timeRecords s) tid d
                  \<le> committed (timeRecords (run sod s reqs)) tid d)
    \<and> (\<forall>r tid d. findOne (timeRecords s) tid d = None
          \<and> findOne (timeRecords (store (serve sod s r))) tid d \<noteq> None \<longrightarrow>
          tid = rq_teacherId r \<and> d = sod (now_today (rq_clock r)) \<and> \<not> truthy (rq_isAvailable r)
          \<and> (\<exists>t ts. findById (teachers s) tid = Some t \<and> isAvailable t
                \<and> lastAvailableTimestamp t = Some ts))"
  using run_ledger [OF assms] serve_creates_lazily [of s _ _ sod] by blast

theorem C6_two_sessions_accumulate:
  "invariant_timeRecords (timeRecords (roster_only [T0]))
   \<and> stamps_le 0 (roster_only [T0])
   \<and> chronological 0 [toggle_at 0 True, toggle_at 1500 False, toggle_at 2000 True,
        toggle_at 4000 False, toggle_at 5000 False]
   \<and> timeRecords (run startOfDay_utc (roster_only [T0])
        [toggle_at 0 True, toggle_at 1500 False, toggle_at 2000 True,
         toggle_at 4000 False, toggle_at 5000 False])
      = [\<lparr>teacher = 1, date = 0, totalAvailableTime = 7 / 2\<rparr>]
   \<and> invariant_timeRecords (timeRecords (run startOfDay_utc (roster_only [T0])
        [toggle_at 0 True, toggle_at 1500 False, toggle_at 2000 True,
         toggle_at 4000 False, toggle_at 5000 False]))"
proof -
  have i: "invariant_timeRecords (timeRecords (roster_only [T0]))"
    by (simp add: invariant_timeRecords_def roster_only_def)
  have s: "stamps_le 0 (roster_only [T0])"
    by (simp add: stamps_le_def roster_only_def T0_def)
  have c: "chronological 0 [toggle_at 0 True, toggle_at 1500 False, toggle_at 2000 True,
        toggle_at 4000 False, toggle_at 5000 False]"
    by (simp add: toggle_at_def at_instant_def)
  have r: "timeRecords (run startOfDay_utc (roster_only [T0])
        [toggle_at 0 True, toggle_at 1500 False, toggle_at 2000 True,
         toggle_at 4000 False, toggle_at 5000 False])
      = [\<lparr>teacher = 1, date = 0, totalAvailableTime = 7 / 2\<rparr>]"
    by (simp add: serve_def toggle_at_def put_status_def timeTracking_def Let_def
          fixture_defs)
  show ?thesis
    using i s c r
      C6_ledger_invariant_under_chronological_requests [OF i s c, of startOfDay_utc]
    by simp
qed

text \<open>The claim as stated fails twice: a session of 1500 ms leaves a total of 3/2
  seconds, which is not an integer; and a clock reading of 2000 ms against a timestamp
  of 5000 ms takes a total of 10 seconds down to 7.\<close>

theorem C6_total_neither_integer_nor_monotone:
  "timeRecords (store (put_status startOfDay_utc no_faults (at_instant 1500) []
        (roster_only [T_since 0]) 1 (JBool False)))
     = [\<lparr>teacher = 1, date = 0, totalAvailableTime = 3 / 2\<rparr>]
   \<and> (3 / 2 :: rat) \<notin> \<int>
   \<and> timeRecords (store (put_status startOfDay_utc no_faults (at_instant 2000) []
        \<lparr>teachers = [T_since 5000],
         timeRecords = [\<lparr>teacher = 1, date = 0, totalAvailableTime = 10\<rparr>]\<rparr> 1 (JBool False)))
     = [\<lparr>teacher = 1, date = 0, totalAvailableTime = 7\<rparr>]
   \<and> (7 :: rat) < 10"
  by (simp add: put_status_def timeTracking_def Let_def fixture_defs)

end
